theory Spec2Isabelle
  imports Complex_Main
begin

section \<open>Python values shared by the three programs\<close>

text \<open>
  A Python \<^verbatim>\<open>float\<close> is a finite number, an infinity or NaN. Comparison of
  floats (and of a float with an int literal) is exact, so a finite float is read as the
  real number it denotes; every comparison with NaN is false.
\<close>

datatype pyfloat = Finite real | PosInf | NegInf | NaN

fun float_gt :: "pyfloat \<Rightarrow> pyfloat \<Rightarrow> bool" where
  "float_gt NaN _ = False"
| "float_gt _ NaN = False"
| "float_gt (Finite a) (Finite b) = (b < a)"
| "float_gt PosInf PosInf = False"
| "float_gt PosInf _ = True"
| "float_gt NegInf _ = False"
| "float_gt (Finite a) NegInf = True"
| "float_gt (Finite a) PosInf = False"

text \<open>
  A \<^verbatim>\<open>datetime\<close>: its calendar fields and, for an aware value, the offset of its
  time zone in minutes.
\<close>

datatype datetime = Datetime (year: nat) (month: nat) (day: nat) (hour: nat) (minute: nat)
  (second: nat) (microsecond: nat) (utcoffset: "int option")

text \<open>
  The exceptions the three programs raise or meet. \<open>HTTPException\<close> carries its status
  code and detail; \<open>SendError\<close> stands for whatever a websocket send raises.
  \<open>SystemExit\<close> is the only one that is not a subclass of \<^verbatim>\<open>Exception\<close>.
\<close>

datatype exn =
    StopIteration | SystemExit | TypeError | ValueError | IndexError | AttributeError
  | FileNotFoundError | SendError
  | HTTPException (status_code: nat) (detail: string)

text \<open>
  Sequencing: the next statement runs on the value of a call that returned; an exception
  ends the sequence.
\<close>

definition try_then :: "exn + 'a \<Rightarrow> ('a \<Rightarrow> exn + 'b) \<Rightarrow> exn + 'b" where
  "try_then r f = (case r of Inl e \<Rightarrow> Inl e | Inr v \<Rightarrow> f v)"

section \<open>The entities of lab2 and lab4\<close>

text \<open>
  The pydantic models of \<^verbatim>\<open>lab2/main.py\<close>. The axis fields \<^verbatim>\<open>x\<close>, \<^verbatim>\<open>y\<close>,
  \<^verbatim>\<open>z\<close> are written \<open>acc_x\<close>, \<open>acc_y\<close>, \<open>acc_z\<close>.
\<close>

record AccelerometerData =
  acc_x :: pyfloat
  acc_y :: pyfloat
  acc_z :: pyfloat

record GpsData =
  latitude :: pyfloat
  longitude :: pyfloat

record AgentData =
  accelerometer :: AccelerometerData
  gps :: GpsData
  timestamp :: datetime

record ProcessedAgentData =
  road_state :: string
  agent_data :: AgentData

section \<open>lab4: the classifier\<close>

text \<open>
  Modelled from the spec: the entity classes of lab4 (\<^verbatim>\<open>app.entities.agent_data\<close>,
  \<^verbatim>\<open>app.entities.processed_agent_data\<close>) are not among the sources. The spec's data
  model gives AgentData the fields accelerometer (x, y, z), gps (latitude, longitude) and
  timestamp, and ProcessedAgentData the fields road_state and agent_data: the models of
  lab2 above, which \<^verbatim>\<open>process_agent_data\<close> of
  \<^verbatim>\<open>lab4/app/usecases/data_processing.py\<close> is stated on.
\<close>

definition process_agent_data :: "AgentData \<Rightarrow> ProcessedAgentData" where
  "process_agent_data data =
     (let state = ''straight'';
          state = (if float_gt (acc_y (accelerometer data)) (Finite 15) then ''pit'' else state)
      in \<lparr>road_state = state, agent_data = data\<rparr>)"

section \<open>lab1: the file datasource\<close>

text \<open>
  A csv file is given by the rows \<^verbatim>\<open>csv.reader\<close> yields for it, a file system by
  the files that exist. A reader object is the rows it has not yet yielded. A data field
  of the datasource is \<open>None\<close> until \<^verbatim>\<open>startReading\<close> assigns a reader to it.
\<close>

type_synonym row = "string list"
type_synonym csv_reader = "row list"
type_synonym filesystem = "string \<rightharpoonup> row list"

record FileDatasource =
  accelerometer_filename :: string
  gps_filename :: string
  parking_filename :: string
  accelerometer_data :: "csv_reader option"
  gps_data :: "csv_reader option"
  parking_data :: "csv_reader option"

text \<open>
  The domain classes (\<^verbatim>\<open>domain.accelerometer\<close>, \<^verbatim>\<open>domain.gps\<close>,
  \<^verbatim>\<open>domain.parking\<close>, \<^verbatim>\<open>domain.aggregated_data\<close>) are not among the sources: a
  value is the positional arguments \<^verbatim>\<open>read\<close> constructs it from.
\<close>

datatype Accelerometer = Accelerometer int int int
datatype Gps = Gps pyfloat pyfloat
datatype Parking = Parking int Gps
datatype AggregatedData = AggregatedData Accelerometer Gps Parking datetime int

text \<open>
  What \<^verbatim>\<open>read\<close> takes from outside the class: the builtins \<^verbatim>\<open>int\<close> and
  \<^verbatim>\<open>float\<close> on a string (\<open>None\<close> where they raise ValueError), the clock
  \<^verbatim>\<open>datetime.now()\<close> and the constant \<^verbatim>\<open>config.USER_ID\<close>.
\<close>

record runtime =
  py_int :: "string \<Rightarrow> int option"
  py_float :: "string \<Rightarrow> pyfloat option"
  now :: datetime
  USER_ID :: int

definition FileDatasource_init :: "string \<Rightarrow> string \<Rightarrow> string \<Rightarrow> FileDatasource" where
  "FileDatasource_init a g p =
     \<lparr>accelerometer_filename = a, gps_filename = g, parking_filename = p,
      accelerometer_data = None, gps_data = None, parking_data = None\<rparr>"

text \<open>
  \<^verbatim>\<open>next(it)\<close>: TypeError when \<open>it\<close> is \<^verbatim>\<open>None\<close>, StopIteration when the reader is
  exhausted, otherwise the next row and the advanced reader.
\<close>

fun next_row :: "csv_reader option \<Rightarrow> exn + (row \<times> csv_reader)" where
  "next_row None = Inl TypeError"
| "next_row (Some []) = Inl StopIteration"
| "next_row (Some (r # rs)) = Inr (r, rs)"

text \<open>\<^verbatim>\<open>except StopIteration: sys.exit()\<close>; any other exception passes through.\<close>

definition except_StopIteration_exit :: "exn \<Rightarrow> exn" where
  "except_StopIteration_exit e = (if e = StopIteration then SystemExit else e)"

text \<open>\<^verbatim>\<open>int(row[i])\<close> and \<^verbatim>\<open>float(row[i])\<close>: IndexError, then ValueError.\<close>

definition index_row :: "row \<Rightarrow> nat \<Rightarrow> exn + string" where
  "index_row r i = (if i < length r then Inr (r ! i) else Inl IndexError)"

definition int_at :: "runtime \<Rightarrow> row \<Rightarrow> nat \<Rightarrow> exn + int" where
  "int_at rt r i =
     try_then (index_row r i)
       (\<lambda>s. case py_int rt s of None \<Rightarrow> Inl ValueError | Some n \<Rightarrow> Inr n)"

definition float_at :: "runtime \<Rightarrow> row \<Rightarrow> nat \<Rightarrow> exn + pyfloat" where
  "float_at rt r i =
     try_then (index_row r i)
       (\<lambda>s. case py_float rt s of None \<Rightarrow> Inl ValueError | Some f \<Rightarrow> Inr f)"

text \<open>The construction of the result, arguments evaluated left to right.\<close>

definition aggregate :: "runtime \<Rightarrow> row \<Rightarrow> row \<Rightarrow> row \<Rightarrow> exn + AggregatedData" where
  "aggregate rt accelerometer_data_row gps_data_row parking_data_row =
     try_then (int_at rt accelerometer_data_row 0) (\<lambda>x.
     try_then (int_at rt accelerometer_data_row 1) (\<lambda>y.
     try_then (int_at rt accelerometer_data_row 2) (\<lambda>z.
     try_then (float_at rt gps_data_row 0) (\<lambda>g0.
     try_then (float_at rt gps_data_row 1) (\<lambda>g1.
     try_then (int_at rt parking_data_row 0) (\<lambda>p0.
     try_then (float_at rt parking_data_row 1) (\<lambda>p1.
     try_then (float_at rt parking_data_row 2) (\<lambda>p2.
       Inr (AggregatedData (Accelerometer x y z) (Gps g0 g1) (Parking p0 (Gps p1 p2))
              (now rt) (USER_ID rt))))))))))"

text \<open>
  \<^verbatim>\<open>FileDatasource.read\<close>. The result is the exception raised or the value returned,
  with the datasource as the call leaves it.
\<close>

definition read :: "runtime \<Rightarrow> FileDatasource \<Rightarrow> (exn + AggregatedData) \<times> FileDatasource" where
  "read rt self =
     (case next_row (accelerometer_data self) of
        Inl e \<Rightarrow> (Inl (except_StopIteration_exit e), self)
      | Inr (accelerometer_data_row, it1) \<Rightarrow>
          (let self1 = self\<lparr>accelerometer_data := Some it1\<rparr> in
           case next_row (gps_data self1) of
             Inl e \<Rightarrow> (Inl (except_StopIteration_exit e), self1)
           | Inr (gps_data_row, it2) \<Rightarrow>
               (let self2 = self1\<lparr>gps_data := Some it2\<rparr> in
                case next_row (parking_data self2) of
                  Inl e \<Rightarrow> (Inl (except_StopIteration_exit e), self2)
                | Inr (parking_data_row, it3) \<Rightarrow>
                    (aggregate rt accelerometer_data_row gps_data_row parking_data_row,
                     self2\<lparr>parking_data := Some it3\<rparr>))))"

text \<open>
  \<^verbatim>\<open>startReading\<close>: each file is opened, its reader stored and the header row skipped.
  A missing file is caught (\<^verbatim>\<open>except FileNotFoundError\<close>: a message is printed and
  \<^verbatim>\<open>sys.exit()\<close> called); the StopIteration of an empty file is not.
\<close>

definition open_reader :: "filesystem \<Rightarrow> string \<Rightarrow> exn + csv_reader" where
  "open_reader fs name = (case fs name of None \<Rightarrow> Inl FileNotFoundError | Some rows \<Rightarrow> Inr rows)"

definition except_FileNotFoundError_exit :: "exn \<Rightarrow> exn" where
  "except_FileNotFoundError_exit e = (if e = FileNotFoundError then SystemExit else e)"

definition startReading :: "filesystem \<Rightarrow> FileDatasource \<Rightarrow> (exn + unit) \<times> FileDatasource" where
  "startReading fs self =
     (case open_reader fs (accelerometer_filename self) of
        Inl e \<Rightarrow> (Inl (except_FileNotFoundError_exit e), self)
      | Inr r1 \<Rightarrow>
          (let self1 = self\<lparr>accelerometer_data := Some r1\<rparr> in
           case next_row (accelerometer_data self1) of
             Inl e \<Rightarrow> (Inl (except_FileNotFoundError_exit e), self1)
           | Inr (_, it1) \<Rightarrow>
          (let self2 = self1\<lparr>accelerometer_data := Some it1\<rparr> in
           case open_reader fs (gps_filename self2) of
             Inl e \<Rightarrow> (Inl (except_FileNotFoundError_exit e), self2)
           | Inr r2 \<Rightarrow>
          (let self3 = self2\<lparr>gps_data := Some r2\<rparr> in
           case next_row (gps_data self3) of
             Inl e \<Rightarrow> (Inl (except_FileNotFoundError_exit e), self3)
           | Inr (_, it2) \<Rightarrow>
          (let self4 = self3\<lparr>gps_data := Some it2\<rparr> in
           case open_reader fs (parking_filename self4) of
             Inl e \<Rightarrow> (Inl (except_FileNotFoundError_exit e), self4)
           | Inr r3 \<Rightarrow>
          (let self5 = self4\<lparr>parking_data := Some r3\<rparr> in
           case next_row (parking_data self5) of
             Inl e \<Rightarrow> (Inl (except_FileNotFoundError_exit e), self5)
           | Inr (_, it3) \<Rightarrow> (Inr (), self5\<lparr>parking_data := Some it3\<rparr>)))))))"

text \<open>
  \<^verbatim>\<open>stopReading\<close>. A field is truthy when it holds a reader (a \<^verbatim>\<open>csv.reader\<close>
  object defines neither \<^verbatim>\<open>__bool__\<close> nor \<^verbatim>\<open>__len__\<close>), and a reader has no
  attribute \<^verbatim>\<open>close\<close>: looking it up raises AttributeError.
\<close>

definition reader_close :: "csv_reader \<Rightarrow> exn + unit" where
  "reader_close r = Inl AttributeError"

definition close_if_set :: "csv_reader option \<Rightarrow> exn + unit" where
  "close_if_set field = (case field of None \<Rightarrow> Inr () | Some r \<Rightarrow> reader_close r)"

definition stopReading :: "FileDatasource \<Rightarrow> exn + unit" where
  "stopReading self =
     try_then (close_if_set (accelerometer_data self)) (\<lambda>_.
     try_then (close_if_set (gps_data self)) (\<lambda>_.
       close_if_set (parking_data self)))"

text \<open>
  Concrete surroundings for the examples: \<^verbatim>\<open>int\<close> and \<^verbatim>\<open>float\<close> on plain decimal
  literals, and a file system with one data row per file.
\<close>

definition digit_of :: "char \<Rightarrow> nat option" where
  "digit_of c =
     (let n = (of_char c :: nat) in if 48 \<le> n \<and> n \<le> 57 then Some (n - 48) else None)"

fun decimal_nat :: "nat \<Rightarrow> string \<Rightarrow> nat option" where
  "decimal_nat acc [] = Some acc"
| "decimal_nat acc (c # cs) =
     (case digit_of c of None \<Rightarrow> None | Some d \<Rightarrow> decimal_nat (10 * acc + d) cs)"

definition decimal_int :: "string \<Rightarrow> int option" where
  "decimal_int s =
     (case s of
        [] \<Rightarrow> None
      | c # cs \<Rightarrow>
          if c = CHR ''-'' then (if cs = [] then None else map_option (\<lambda>n. - int n) (decimal_nat 0 cs))
          else map_option int (decimal_nat 0 s))"

definition decimal_float :: "string \<Rightarrow> pyfloat option" where
  "decimal_float s = map_option (\<lambda>n. Finite (of_int n)) (decimal_int s)"

definition demo_runtime :: runtime where
  "demo_runtime =
     \<lparr>py_int = decimal_int, py_float = decimal_float,
      now = Datetime 2024 1 1 0 0 0 0 None, USER_ID = 1\<rparr>"

definition demo_files :: filesystem where
  "demo_files =
     [''accelerometer.csv'' \<mapsto> [[''x'', ''y'', ''z''], [''1'', ''16'', ''3'']],
      ''gps.csv'' \<mapsto> [[''longitude'', ''latitude''], [''30'', ''50'']],
      ''parking.csv'' \<mapsto> [[''empty_count'', ''longitude'', ''latitude''], [''7'', ''31'', ''51'']]]"

definition demo_datasource :: FileDatasource where
  "demo_datasource = FileDatasource_init ''accelerometer.csv'' ''gps.csv'' ''parking.csv''"

definition demo_files_short_gps :: filesystem where
  "demo_files_short_gps = demo_files(''gps.csv'' \<mapsto> [[''longitude'', ''latitude'']])"

definition demo_started :: FileDatasource where
  "demo_started =
     demo_datasource\<lparr>accelerometer_data := Some [[''1'', ''16'', ''3'']],
        gps_data := Some [[''30'', ''50'']], parking_data := Some [[''7'', ''31'', ''51'']]\<rparr>"

section \<open>lab2: the store API\<close>

subsection \<open>The table and the object the endpoints use as their session\<close>

text \<open>
  The dictionary \<^verbatim>\<open>create_processed_agent_data\<close> builds for one item, keyed by the
  \<^verbatim>\<open>COLUMN_*\<close> constants, and a row of the table \<^verbatim>\<open>processed_agent_data\<close>: the same
  columns with the primary key \<^verbatim>\<open>id\<close>, written \<open>row_id\<close>. A row is also what the
  response model \<^verbatim>\<open>ProcessedAgentDataInDB\<close> holds.
\<close>

record column_values =
  col_road_state :: string
  col_x :: pyfloat
  col_y :: pyfloat
  col_z :: pyfloat
  col_latitude :: pyfloat
  col_longitude :: pyfloat
  col_timestamp :: datetime

record ProcessedAgentDataInDB = column_values +
  row_id :: int

text \<open>The statements the endpoints build for \<^verbatim>\<open>execute\<close>.\<close>

datatype statement =
    Insert "column_values list"
  | Select int
  | Update int column_values
  | Delete int

text \<open>
  \<^verbatim>\<open>get_db\<close> binds \<^verbatim>\<open>db\<close> to \<^verbatim>\<open>sessionmaker(...)\<close>: the session factory itself,
  which is never called, so no session is ever made. A \<^verbatim>\<open>sessionmaker\<close> object has
  none of the attributes \<^verbatim>\<open>close\<close>, \<^verbatim>\<open>execute\<close>, \<^verbatim>\<open>commit\<close> and
  \<^verbatim>\<open>query\<close>: looking any of them up raises AttributeError, before a statement
  reaches the database.
\<close>

datatype sessionmaker = Sessionmaker

definition close :: "sessionmaker \<Rightarrow> exn + unit" where
  "close db = Inl AttributeError"

definition execute :: "sessionmaker \<Rightarrow> statement \<Rightarrow> exn + ProcessedAgentDataInDB option" where
  "execute db stmt = Inl AttributeError"

definition commit :: "sessionmaker \<Rightarrow> exn + unit" where
  "commit db = Inl AttributeError"

definition query_all :: "sessionmaker \<Rightarrow> exn + ProcessedAgentDataInDB list" where
  "query_all db = Inl AttributeError"

text \<open>
  \<^verbatim>\<open>finally: db.close()\<close> after a block whose outcome is \<open>r\<close>: an exception raised
  in the \<^verbatim>\<open>finally\<close> clause replaces the outcome of the block, a return as well as an
  exception.
\<close>

definition finally_close :: "sessionmaker \<Rightarrow> exn + 'a \<Rightarrow> exn + 'a" where
  "finally_close db r = (case close db of Inl e \<Rightarrow> Inl e | Inr _ \<Rightarrow> r)"

text \<open>\<^verbatim>\<open>get_db\<close>: \<^verbatim>\<open>try: return db\<close> with \<^verbatim>\<open>finally: db.close()\<close>.\<close>

definition get_db :: "exn + sessionmaker" where
  "get_db = (let db = Sessionmaker in finally_close db (Inr db))"

subsection \<open>Library functions the program calls\<close>

text \<open>
  What lab2 takes from its libraries, as parameters: \<^verbatim>\<open>repr\<close> of a finite float (the
  text \<^verbatim>\<open>json.dumps\<close> writes for it), \<^verbatim>\<open>datetime.fromisoformat\<close> on a string
  (\<open>None\<close> where it raises ValueError), and the datetime parsing pydantic itself applies
  to a field of type \<^verbatim>\<open>datetime\<close>: on a string, and on a number, which it reads as
  Unix time (\<open>None\<close> where it rejects the value).
\<close>

record library =
  float_repr :: "real \<Rightarrow> string"
  fromisoformat :: "string \<Rightarrow> datetime option"
  datetime_of_str :: "string \<Rightarrow> datetime option"
  datetime_of_unix :: "int \<Rightarrow> datetime option"

subsection \<open>Subscribers\<close>

text \<open>
  The Python values a payload is made of. \<^verbatim>\<open>json.dumps\<close> serialises \<^verbatim>\<open>None\<close>,
  booleans, numbers, strings, lists and dictionaries with string keys; on a
  \<^verbatim>\<open>datetime\<close> or a pydantic model object it raises TypeError. Strings are sequences
  of code points below 256. \<open>dumps\<close> takes the two separators and the string escape, as
  \<^verbatim>\<open>json.dumps(data, separators=..., ensure_ascii=...)\<close> does.
\<close>

datatype pyvalue =
    PNone | PBool bool | PInt int | PFloat pyfloat | PStr string
  | PList "pyvalue list" | PDict "(string \<times> pyvalue) list"
  | PDatetime datetime | PModel ProcessedAgentData

definition hex_digit :: "nat \<Rightarrow> char" where
  "hex_digit n = ''0123456789abcdef'' ! (n mod 16)"

definition escape_common :: "char \<Rightarrow> string option" where
  "escape_common c =
     (if c = CHR 0x22 then Some [CHR 0x5C, CHR 0x22]
      else if c = CHR 0x5C then Some [CHR 0x5C, CHR 0x5C]
      else if c = CHR 0x08 then Some [CHR 0x5C, CHR ''b'']
      else if c = CHR 0x0C then Some [CHR 0x5C, CHR ''f'']
      else if c = CHR 0x0A then Some [CHR 0x5C, CHR ''n'']
      else if c = CHR 0x0D then Some [CHR 0x5C, CHR ''r'']
      else if c = CHR 0x09 then Some [CHR 0x5C, CHR ''t'']
      else if (of_char c :: nat) < 0x20
        then Some ([CHR 0x5C, CHR ''u'', CHR ''0'', CHR ''0'',
                    hex_digit (of_char c div 16), hex_digit (of_char c)])
      else None)"

text \<open>The escape with \<^verbatim>\<open>ensure_ascii=True\<close> (the default): only space to \<^verbatim>\<open>~\<close> stay.\<close>

definition escape_ascii :: "char \<Rightarrow> string" where
  "escape_ascii c =
     (case escape_common c of
        Some e \<Rightarrow> e
      | None \<Rightarrow>
          if 0x7E < (of_char c :: nat)
          then [CHR 0x5C, CHR ''u'', CHR ''0'', CHR ''0'',
                hex_digit (of_char c div 16), hex_digit (of_char c)]
          else [c])"

text \<open>The escape with \<^verbatim>\<open>ensure_ascii=False\<close>.\<close>

definition escape_plain :: "char \<Rightarrow> string" where
  "escape_plain c = (case escape_common c of Some e \<Rightarrow> e | None \<Rightarrow> [c])"

definition encode_string :: "(char \<Rightarrow> string) \<Rightarrow> string \<Rightarrow> string" where
  "encode_string esc s = CHR 0x22 # concat (map esc s) @ [CHR 0x22]"

fun join :: "string \<Rightarrow> string list \<Rightarrow> string" where
  "join sep [] = []"
| "join sep [x] = x"
| "join sep (x # y # ys) = x @ sep @ join sep (y # ys)"

definition decimal_digit :: "nat \<Rightarrow> char" where
  "decimal_digit n = ''0123456789'' ! (n mod 10)"

fun decimal_digits :: "nat \<Rightarrow> string" where
  "decimal_digits n =
     (if n < 10 then [decimal_digit n] else decimal_digits (n div 10) @ [decimal_digit n])"

declare decimal_digits.simps [simp del]

definition int_repr :: "int \<Rightarrow> string" where
  "int_repr i = (if i < 0 then CHR ''-'' # decimal_digits (nat (- i)) else decimal_digits (nat i))"

text \<open>A float: \<^verbatim>\<open>repr\<close> of a finite one, and the three names of the others.\<close>

definition float_text :: "(real \<Rightarrow> string) \<Rightarrow> pyfloat \<Rightarrow> string" where
  "float_text fr f =
     (case f of
        Finite r \<Rightarrow> fr r
      | PosInf \<Rightarrow> ''Infinity''
      | NegInf \<Rightarrow> ''-Infinity''
      | NaN \<Rightarrow> ''NaN'')"

text \<open>The parts of a list or dictionary, left to right; the first exception ends it.\<close>

fun sequence :: "(exn + 'a) list \<Rightarrow> exn + 'a list" where
  "sequence [] = Inr []"
| "sequence (r # rs) = try_then r (\<lambda>v. try_then (sequence rs) (\<lambda>vs. Inr (v # vs)))"

fun dumps :: "(real \<Rightarrow> string) \<Rightarrow> string \<Rightarrow> string \<Rightarrow> (char \<Rightarrow> string) \<Rightarrow> pyvalue \<Rightarrow> exn + string" where
  "dumps fr item_sep key_sep esc PNone = Inr ''null''"
| "dumps fr item_sep key_sep esc (PBool b) = Inr (if b then ''true'' else ''false'')"
| "dumps fr item_sep key_sep esc (PInt i) = Inr (int_repr i)"
| "dumps fr item_sep key_sep esc (PFloat f) = Inr (float_text fr f)"
| "dumps fr item_sep key_sep esc (PStr s) = Inr (encode_string esc s)"
| "dumps fr item_sep key_sep esc (PList xs) =
     try_then (sequence (map (dumps fr item_sep key_sep esc) xs))
       (\<lambda>parts. Inr (''['' @ join item_sep parts @ '']''))"
| "dumps fr item_sep key_sep esc (PDict kvs) =
     try_then
       (sequence
          (map (\<lambda>kv. try_then (dumps fr item_sep key_sep esc (snd kv))
                       (\<lambda>v. Inr (encode_string esc (fst kv) @ key_sep @ v))) kvs))
       (\<lambda>parts. Inr (''{'' @ join item_sep parts @ ''}''))"
| "dumps fr item_sep key_sep esc (PDatetime d) = Inl TypeError"
| "dumps fr item_sep key_sep esc (PModel m) = Inl TypeError"

definition json_dumps :: "library \<Rightarrow> pyvalue \<Rightarrow> exn + string" where
  "json_dumps lib data = dumps (float_repr lib) '', '' '': '' escape_ascii data"

text \<open>
  A websocket connection: whether it can still be sent to, and the text frames it has
  been sent. \<^verbatim>\<open>send_json(data)\<close> serialises \<open>data\<close> itself, with
  \<^verbatim>\<open>json.dumps(data, separators=(",", ":"), ensure_ascii=False)\<close>, and sends the text.
\<close>

record WebSocket =
  ws_id :: nat
  ws_open :: bool
  sent :: "string list"

definition send_text :: "WebSocket \<Rightarrow> string \<Rightarrow> exn + WebSocket" where
  "send_text ws t = (if ws_open ws then Inr (ws\<lparr>sent := sent ws @ [t]\<rparr>) else Inl SendError)"

definition send_json :: "library \<Rightarrow> WebSocket \<Rightarrow> pyvalue \<Rightarrow> exn + WebSocket" where
  "send_json lib ws data =
     try_then (dumps (float_repr lib) '','' '':'' escape_plain data) (send_text ws)"

text \<open>
  \<^verbatim>\<open>send_data_to_subscribers\<close>: the loop over the set \<^verbatim>\<open>subscriptions\<close>, given as
  the list of its members in iteration order. Each round evaluates
  \<^verbatim>\<open>json.dumps(data)\<close> and passes the resulting string to \<^verbatim>\<open>send_json\<close>. The result
  is the exception that ended the loop or \<open>()\<close>, with the connections as the call leaves
  them.
\<close>

fun send_data_to_subscribers ::
    "library \<Rightarrow> pyvalue \<Rightarrow> WebSocket list \<Rightarrow> (exn + unit) \<times> WebSocket list" where
  "send_data_to_subscribers lib data [] = (Inr (), [])"
| "send_data_to_subscribers lib data (websocket # rest) =
     (case json_dumps lib data of
        Inl e \<Rightarrow> (Inl e, websocket # rest)
      | Inr text \<Rightarrow>
          (case send_json lib websocket (PStr text) of
             Inl e \<Rightarrow> (Inl e, websocket # rest)
           | Inr websocket' \<Rightarrow>
               (case send_data_to_subscribers lib data rest of
                  (r, rest') \<Rightarrow> (r, websocket' # rest'))))"

subsection \<open>The endpoints\<close>

text \<open>
  The state of the application: the rows of the table and the global set
  \<^verbatim>\<open>subscriptions\<close>.
\<close>

record app_state =
  table :: "ProcessedAgentDataInDB list"
  subscriptions :: "WebSocket list"

text \<open>
  \<^verbatim>\<open>except Exception: raise HTTPException(status_code=500, detail="Error")\<close>. It
  catches every subclass of \<^verbatim>\<open>Exception\<close>, an HTTPException raised in the try block
  included.
\<close>

definition is_Exception :: "exn \<Rightarrow> bool" where
  "is_Exception e = (e \<noteq> SystemExit)"

definition except_Exception_500 :: "exn + 'a \<Rightarrow> exn + 'a" where
  "except_Exception_500 r =
     (case r of
        Inl e \<Rightarrow> if is_Exception e then Inl (HTTPException 500 ''Error'') else Inl e
      | Inr v \<Rightarrow> Inr v)"

definition new_processed_agent_data :: "ProcessedAgentData \<Rightarrow> column_values" where
  "new_processed_agent_data item =
     \<lparr>col_road_state = road_state item,
      col_x = acc_x (accelerometer (agent_data item)),
      col_y = acc_y (accelerometer (agent_data item)),
      col_z = acc_z (accelerometer (agent_data item)),
      col_latitude = latitude (gps (agent_data item)),
      col_longitude = longitude (gps (agent_data item)),
      col_timestamp = timestamp (agent_data item)\<rparr>"

text \<open>
  Every endpoint starts with \<^verbatim>\<open>db = get_db()\<close>, outside its \<^verbatim>\<open>try\<close>: an exception
  of \<^verbatim>\<open>get_db\<close> leaves the handler as it is. Past it, the statements run inside
  \<^verbatim>\<open>try\<close>, with \<^verbatim>\<open>except Exception\<close> and \<^verbatim>\<open>finally: db.close()\<close>. No endpoint
  changes the table by any other means than these calls, and none touches
  \<^verbatim>\<open>subscriptions\<close>.

  \<^verbatim>\<open>create_processed_agent_data\<close>: the first loop appends one dictionary per item
  (reading the attributes of a validated model raises nothing); then one INSERT and the
  commit. The function ends there and returns \<^verbatim>\<open>None\<close>.
\<close>

definition create_processed_agent_data ::
    "ProcessedAgentData list \<Rightarrow> app_state \<Rightarrow> (exn + unit) \<times> app_state" where
  "create_processed_agent_data data st =
     (case get_db of
        Inl e \<Rightarrow> (Inl e, st)
      | Inr db \<Rightarrow>
          (let processed_agent_data_list = map new_processed_agent_data data;
               insert_processed_agent_data = Insert processed_agent_data_list;
               body = try_then (execute db insert_processed_agent_data) (\<lambda>_. commit db)
           in (finally_close db (except_Exception_500 body), st)))"

definition read_processed_agent_data ::
    "int \<Rightarrow> app_state \<Rightarrow> (exn + ProcessedAgentDataInDB option) \<times> app_state" where
  "read_processed_agent_data processed_agent_data_id st =
     (case get_db of
        Inl e \<Rightarrow> (Inl e, st)
      | Inr db \<Rightarrow>
          (let body = execute db (Select processed_agent_data_id)
           in (finally_close db (except_Exception_500 body), st)))"

definition list_processed_agent_data ::
    "app_state \<Rightarrow> (exn + ProcessedAgentDataInDB list) \<times> app_state" where
  "list_processed_agent_data st =
     (case get_db of
        Inl e \<Rightarrow> (Inl e, st)
      | Inr db \<Rightarrow>
          (let body = query_all db
           in (finally_close db (except_Exception_500 body), st)))"

definition update_processed_agent_data ::
    "int \<Rightarrow> ProcessedAgentData \<Rightarrow> app_state
      \<Rightarrow> (exn + ProcessedAgentDataInDB option) \<times> app_state" where
  "update_processed_agent_data processed_agent_data_id data st =
     (case get_db of
        Inl e \<Rightarrow> (Inl e, st)
      | Inr db \<Rightarrow>
          (let body =
                 try_then (execute db (Update processed_agent_data_id (new_processed_agent_data data)))
                   (\<lambda>_. try_then (commit db)
                   (\<lambda>_. execute db (Select processed_agent_data_id)))
           in (finally_close db (except_Exception_500 body), st)))"

definition delete_processed_agent_data ::
    "int \<Rightarrow> app_state \<Rightarrow> (exn + ProcessedAgentDataInDB) \<times> app_state" where
  "delete_processed_agent_data processed_agent_data_id st =
     (case get_db of
        Inl e \<Rightarrow> (Inl e, st)
      | Inr db \<Rightarrow>
          (let body =
                 try_then (execute db (Select processed_agent_data_id))
                   (\<lambda>select_processed_agent_data.
                      case select_processed_agent_data of
                        None \<Rightarrow> Inl (HTTPException 400 ''Not found'')
                      | Some found \<Rightarrow>
                          try_then (execute db (Delete processed_agent_data_id))
                            (\<lambda>_. try_then (commit db) (\<lambda>_. Inr found)))
           in (finally_close db (except_Exception_500 body), st)))"

subsection \<open>The request boundary\<close>

text \<open>
  The body of a POST as it arrives: the timestamp is still the raw JSON value (a string
  or a number) or already a \<^verbatim>\<open>datetime\<close>.

  \<^verbatim>\<open>AgentData.check_timestamp\<close>, on the raw value (\<^verbatim>\<open>mode='before'\<close>):
  \<^verbatim>\<open>datetime.fromisoformat\<close> raises ValueError on a string it does not parse and
  TypeError on a value that is not a string; both are caught and ValueError is raised.
\<close>

datatype raw_value = RawStr string | RawNumber int | RawDatetime datetime

record raw_item =
  raw_road_state :: string
  raw_accelerometer :: AccelerometerData
  raw_gps :: GpsData
  raw_timestamp :: raw_value

definition check_timestamp :: "(string \<Rightarrow> datetime option) \<Rightarrow> raw_value \<Rightarrow> exn + datetime" where
  "check_timestamp fromiso v =
     (case v of
        RawDatetime d \<Rightarrow> Inr d
      | RawStr s \<Rightarrow> (case fromiso s of Some d \<Rightarrow> Inr d | None \<Rightarrow> Inl ValueError)
      | RawNumber n \<Rightarrow> Inl ValueError)"

text \<open>
  The decorators of \<^verbatim>\<open>check_timestamp\<close>, applied from the bottom up:
  \<^verbatim>\<open>field_validator\<close> wraps the function in the proxy object by which pydantic
  recognises a validator, then \<^verbatim>\<open>classmethod\<close> wraps that proxy. What the class body
  binds to the name is therefore a \<^verbatim>\<open>classmethod\<close> object; pydantic collects as
  validators only the attributes that are proxies themselves.
\<close>

datatype 'f class_attribute = DescriptorProxy 'f | ClassMethod "'f class_attribute"

definition field_validator :: "'f \<Rightarrow> 'f class_attribute" where
  "field_validator f = DescriptorProxy f"

definition AgentData_check_timestamp ::
    "(string \<Rightarrow> datetime option) \<Rightarrow> (raw_value \<Rightarrow> exn + datetime) class_attribute" where
  "AgentData_check_timestamp fromiso = ClassMethod (field_validator (check_timestamp fromiso))"

definition collected_validator :: "'f class_attribute \<Rightarrow> 'f option" where
  "collected_validator a = (case a of DescriptorProxy f \<Rightarrow> Some f | ClassMethod _ \<Rightarrow> None)"

text \<open>
  The datetime parsing pydantic applies to the field \<^verbatim>\<open>timestamp: datetime\<close>, and the
  validation of the field: a collected before-validator runs first, on the raw value.
\<close>

definition builtin_datetime :: "library \<Rightarrow> raw_value \<Rightarrow> exn + datetime" where
  "builtin_datetime lib v =
     (case v of
        RawDatetime d \<Rightarrow> Inr d
      | RawStr s \<Rightarrow> (case datetime_of_str lib s of Some d \<Rightarrow> Inr d | None \<Rightarrow> Inl ValueError)
      | RawNumber n \<Rightarrow> (case datetime_of_unix lib n of Some d \<Rightarrow> Inr d | None \<Rightarrow> Inl ValueError))"

definition validate_timestamp :: "library \<Rightarrow> raw_value \<Rightarrow> exn + datetime" where
  "validate_timestamp lib v =
     (case collected_validator (AgentData_check_timestamp (fromisoformat lib)) of
        Some before \<Rightarrow> try_then (before v) (\<lambda>d. builtin_datetime lib (RawDatetime d))
      | None \<Rightarrow> builtin_datetime lib v)"

definition validate_item :: "library \<Rightarrow> raw_item \<Rightarrow> exn + ProcessedAgentData" where
  "validate_item lib raw =
     try_then (validate_timestamp lib (raw_timestamp raw)) (\<lambda>ts.
       Inr \<lparr>road_state = raw_road_state raw,
            agent_data = \<lparr>accelerometer = raw_accelerometer raw, gps = raw_gps raw,
                           timestamp = ts\<rparr>\<rparr>)"

fun validate_body :: "library \<Rightarrow> raw_item list \<Rightarrow> exn + ProcessedAgentData list" where
  "validate_body lib [] = Inr []"
| "validate_body lib (raw # rest) =
     try_then (validate_item lib raw) (\<lambda>item.
     try_then (validate_body lib rest) (\<lambda>items. Inr (item # items)))"

text \<open>
  The route \<^verbatim>\<open>POST /processed_agent_data/\<close>: the framework builds the parameter
  \<^verbatim>\<open>data: List[ProcessedAgentData]\<close> from the body and answers 422 when the validation
  raises; only then does it call the handler.
\<close>

definition post_processed_agent_data ::
    "library \<Rightarrow> raw_item list \<Rightarrow> app_state \<Rightarrow> (exn + unit) \<times> app_state" where
  "post_processed_agent_data lib body st =
     (case validate_body lib body of
        Inl e \<Rightarrow> (Inl (HTTPException 422 ''Unprocessable Entity''), st)
      | Inr data \<Rightarrow> create_processed_agent_data data st)"

subsection \<open>Concrete values for the examples\<close>

definition demo_item :: ProcessedAgentData where
  "demo_item =
     \<lparr>road_state = ''straight'',
      agent_data =
        \<lparr>accelerometer = \<lparr>acc_x = Finite 1, acc_y = Finite 2, acc_z = Finite 3\<rparr>,
         gps = \<lparr>latitude = Finite 10, longitude = Finite 20\<rparr>,
         timestamp = Datetime 2024 1 1 0 0 0 0 (Some 0)\<rparr>\<rparr>"

definition demo_row :: "int \<Rightarrow> ProcessedAgentDataInDB" where
  "demo_row n =
     \<lparr>col_road_state = ''straight'', col_x = Finite 1, col_y = Finite 2, col_z = Finite 3,
      col_latitude = Finite 10, col_longitude = Finite 20,
      col_timestamp = Datetime 2024 1 1 0 0 0 0 None, row_id = n\<rparr>"

definition demo_ws :: "nat \<Rightarrow> WebSocket" where
  "demo_ws n = \<lparr>ws_id = n, ws_open = True, sent = []\<rparr>"

definition broken_ws :: "nat \<Rightarrow> WebSocket" where
  "broken_ws n = \<lparr>ws_id = n, ws_open = False, sent = []\<rparr>"

definition demo_state :: app_state where
  "demo_state = \<lparr>table = [demo_row 1], subscriptions = [demo_ws 0]\<rparr>"

definition demo_float_repr :: "real \<Rightarrow> string" where
  "demo_float_repr r = (if r = 3 / 2 then ''1.5'' else ''0.0'')"

definition demo_iso :: "string \<Rightarrow> datetime option" where
  "demo_iso s =
     (if s = ''2024-01-01T00:00:00+00:00'' then Some (Datetime 2024 1 1 0 0 0 0 (Some 0))
      else None)"

definition demo_unix :: "int \<Rightarrow> datetime option" where
  "demo_unix n = (if n = 1704067200 then Some (Datetime 2024 1 1 0 0 0 0 (Some 0)) else None)"

definition demo_library :: library where
  "demo_library =
     \<lparr>float_repr = demo_float_repr, fromisoformat = demo_iso, datetime_of_str = demo_iso,
      datetime_of_unix = demo_unix\<rparr>"

definition demo_raw :: "raw_value \<Rightarrow> raw_item" where
  "demo_raw ts =
     \<lparr>raw_road_state = ''straight'',
      raw_accelerometer = \<lparr>acc_x = Finite 1, acc_y = Finite 2, acc_z = Finite 3\<rparr>,
      raw_gps = \<lparr>latitude = Finite 10, longitude = Finite 20\<rparr>,
      raw_timestamp = ts\<rparr>"

definition demo_payload :: pyvalue where
  "demo_payload =
     PDict [(''road_state'', PStr [CHR ''p'', CHR 0x22, CHR 0x5C, CHR 0x0A, CHR 0xE9]),
            (''x'', PInt (- 12)),
            (''y'', PFloat (Finite (3 / 2))),
            (''flags'', PList [PBool True, PNone])]"

text \<open>
  \<open>demo_payload\<close> is a dictionary whose \<^verbatim>\<open>road_state\<close> is the five characters p,
  double quote, backslash, newline and the code point 0xE9. \<open>demo_text\<close> is its JSON
  text and \<open>demo_frame\<close> the frame a subscriber is sent for it: that text between
  double quotes, with a backslash before every double quote and every backslash of it.
\<close>

definition demo_text :: string where
  "demo_text =
     ''{'' @ [CHR 0x22] @ ''road_state'' @ [CHR 0x22] @ '': '' @
     [CHR 0x22, CHR ''p'', CHR 0x5C, CHR 0x22, CHR 0x5C, CHR 0x5C, CHR 0x5C, CHR ''n'', CHR 0x5C] @
     ''u00e9'' @ [CHR 0x22] @ '', '' @
     [CHR 0x22] @ ''x'' @ [CHR 0x22] @ '': -12, '' @
     [CHR 0x22] @ ''y'' @ [CHR 0x22] @ '': 1.5, '' @
     [CHR 0x22] @ ''flags'' @ [CHR 0x22] @ '': [true, null]}''"

definition demo_frame :: string where
  "demo_frame =
     [CHR 0x22] @ ''{'' @ [CHR 0x5C, CHR 0x22] @ ''road_state'' @ [CHR 0x5C, CHR 0x22] @ '': '' @
     [CHR 0x5C, CHR 0x22, CHR ''p'', CHR 0x5C, CHR 0x5C, CHR 0x5C, CHR 0x22,
      CHR 0x5C, CHR 0x5C, CHR 0x5C, CHR 0x5C, CHR 0x5C, CHR 0x5C, CHR ''n'', CHR 0x5C, CHR 0x5C] @
     ''u00e9'' @ [CHR 0x5C, CHR 0x22] @ '', '' @
     [CHR 0x5C, CHR 0x22] @ ''x'' @ [CHR 0x5C, CHR 0x22] @ '': -12, '' @
     [CHR 0x5C, CHR 0x22] @ ''y'' @ [CHR 0x5C, CHR 0x22] @ '': 1.5, '' @
     [CHR 0x5C, CHR 0x22] @ ''flags'' @ [CHR 0x5C, CHR 0x22] @ '': [true, null]}'' @ [CHR 0x22]"

text \<open>What a connection looks like after one more text frame.\<close>

definition delivered :: "string \<Rightarrow> WebSocket \<Rightarrow> WebSocket" where
  "delivered t ws = ws\<lparr>sent := sent ws @ [t]\<rparr>"

text \<open>
  Reading a frame back: the decoder of a JSON string literal (what \<^verbatim>\<open>json.loads\<close>
  does on a text that is one string), \<open>None\<close> where the text is not a string literal.
  It is used to say what a subscriber finds in a frame.
\<close>

definition hex_val :: "char \<Rightarrow> nat option" where
  "hex_val c =
     (let n = (of_char c :: nat) in
      if 48 \<le> n \<and> n \<le> 57 then Some (n - 48)
      else if 97 \<le> n \<and> n \<le> 102 then Some (n - 87)
      else if 65 \<le> n \<and> n \<le> 70 then Some (n - 55)
      else None)"

definition hex4 :: "char \<Rightarrow> char \<Rightarrow> char \<Rightarrow> char \<Rightarrow> nat option" where
  "hex4 a b c d =
     (case (hex_val a, hex_val b, hex_val c, hex_val d) of
        (Some w, Some x, Some y, Some z) \<Rightarrow> Some (4096 * w + 256 * x + 16 * y + z)
      | _ \<Rightarrow> None)"

fun unescape :: "string \<Rightarrow> string option" where
  "unescape [] = Some []"
| "unescape [c] = (if c = CHR 0x5C \<or> c = CHR 0x22 then None else Some [c])"
| "unescape (c # e # rest) =
     (if c = CHR 0x5C then
        (if e = CHR 0x22 \<or> e = CHR 0x5C \<or> e = CHR ''/'' then map_option ((#) e) (unescape rest)
         else if e = CHR ''b'' then map_option ((#) (CHR 0x08)) (unescape rest)
         else if e = CHR ''f'' then map_option ((#) (CHR 0x0C)) (unescape rest)
         else if e = CHR ''n'' then map_option ((#) (CHR 0x0A)) (unescape rest)
         else if e = CHR ''r'' then map_option ((#) (CHR 0x0D)) (unescape rest)
         else if e = CHR ''t'' then map_option ((#) (CHR 0x09)) (unescape rest)
         else if e = CHR ''u'' then
           (case rest of
              h1 # h2 # h3 # h4 # rest' \<Rightarrow>
                (case hex4 h1 h2 h3 h4 of
                   Some n \<Rightarrow> if n < 256 then map_option ((#) (char_of n)) (unescape rest') else None
                 | None \<Rightarrow> None)
            | _ \<Rightarrow> None)
         else None)
      else if c = CHR 0x22 then None
      else map_option ((#) c) (unescape (e # rest)))"

definition loads_string :: "string \<Rightarrow> string option" where
  "loads_string t =
     (case t of
        [] \<Rightarrow> None
      | q # body \<Rightarrow>
          if q = CHR 0x22 \<and> body \<noteq> [] \<and> last body = CHR 0x22 then unescape (butlast body)
          else None)"

section \<open>Properties of the classifier\<close>

text \<open>
  C5. The classifier reads the accelerometer field \<^verbatim>\<open>y\<close>. For every agent data whose
  reading is the number \<open>r\<close>, the label is "pit" exactly when \<open>r\<close> is strictly greater
  than 15 and "straight" when \<open>r\<close> is at most 15, so the boundary 15 is "straight". The
  function is total: for every input (also an infinite or NaN reading) the label is one
  of the two, and the agent data is returned unchanged.
\<close>

theorem process_agent_data_threshold:
  "(acc_y (accelerometer a) = Finite r \<longrightarrow>
      ((road_state (process_agent_data a) = ''pit'') = (15 < r)) \<and>
      (r \<le> 15 \<longrightarrow> road_state (process_agent_data a) = ''straight'')) \<and>
   (acc_y (accelerometer a) = Finite 15 \<longrightarrow> road_state (process_agent_data a) = ''straight'') \<and>
   (road_state (process_agent_data a) = ''pit'' \<or> road_state (process_agent_data a) = ''straight'') \<and>
   agent_data (process_agent_data a) = a"
  by (auto simp: process_agent_data_def Let_def)

theorem process_agent_data_threshold_witness:
  "road_state (process_agent_data
      \<lparr>accelerometer = \<lparr>acc_x = Finite 1, acc_y = Finite 16, acc_z = Finite 3\<rparr>,
       gps = \<lparr>latitude = Finite 10, longitude = Finite 20\<rparr>,
       timestamp = Datetime 2024 1 1 0 0 0 0 None\<rparr>) = ''pit'' \<and>
   road_state (process_agent_data
      \<lparr>accelerometer = \<lparr>acc_x = Finite 1, acc_y = Finite 15, acc_z = Finite 3\<rparr>,
       gps = \<lparr>latitude = Finite 10, longitude = Finite 20\<rparr>,
       timestamp = Datetime 2024 1 1 0 0 0 0 None\<rparr>) = ''straight''"
  using process_agent_data_threshold
    [of "\<lparr>accelerometer = \<lparr>acc_x = Finite 1, acc_y = Finite 16, acc_z = Finite 3\<rparr>,
       gps = \<lparr>latitude = Finite 10, longitude = Finite 20\<rparr>,
       timestamp = Datetime 2024 1 1 0 0 0 0 None\<rparr>" 16]
    process_agent_data_threshold
    [of "\<lparr>accelerometer = \<lparr>acc_x = Finite 1, acc_y = Finite 15, acc_z = Finite 3\<rparr>,
       gps = \<lparr>latitude = Finite 10, longitude = Finite 20\<rparr>,
       timestamp = Datetime 2024 1 1 0 0 0 0 None\<rparr>" 15]
  by simp

section \<open>Properties of the file datasource\<close>

lemma startReading_demo: "startReading demo_files demo_datasource = (Inr (), demo_started)"
  by (simp add: startReading_def demo_files_def demo_datasource_def FileDatasource_init_def
      open_reader_def Let_def demo_started_def)

lemma aggregate_demo:
  "aggregate demo_runtime [''1'', ''16'', ''3''] [''30'', ''50''] [''7'', ''31'', ''51''] =
     Inr (AggregatedData (Accelerometer 1 16 3) (Gps (Finite 30) (Finite 50))
            (Parking 7 (Gps (Finite 31) (Finite 51))) (Datetime 2024 1 1 0 0 0 0 None) 1)"
  by (simp add: aggregate_def try_then_def int_at_def float_at_def index_row_def
      demo_runtime_def decimal_int_def decimal_float_def digit_of_def)

text \<open>
  C8 fails as stated: when a source is exhausted \<^verbatim>\<open>read\<close> does not hand an
  end-of-stream outcome to its caller. It calls \<^verbatim>\<open>sys.exit()\<close>: the call raises
  SystemExit and returns no value. Here the gps file holds its header only.
\<close>

theorem read_exhausted_counterexample:
  "fst (startReading demo_files_short_gps demo_datasource) = Inr () \<and>
   gps_data (snd (startReading demo_files_short_gps demo_datasource)) = Some [] \<and>
   fst (read demo_runtime (snd (startReading demo_files_short_gps demo_datasource))) =
     Inl SystemExit"
  by (simp add: startReading_def demo_files_short_gps_def demo_files_def demo_datasource_def
      FileDatasource_init_def open_reader_def Let_def read_def except_StopIteration_exit_def)

text \<open>
  C8, amended. On a datasource whose three sources have been started: when each source
  has a row left, \<^verbatim>\<open>read\<close> takes exactly one row from each and its outcome is the
  record built from these three rows (one AggregatedData when their fields parse); when
  any source is exhausted, \<^verbatim>\<open>read\<close> raises SystemExit (\<^verbatim>\<open>sys.exit()\<close>) and returns
  nothing to its caller.
\<close>

theorem read_started:
  assumes "accelerometer_data self = Some a" and "gps_data self = Some g"
    and "parking_data self = Some p"
  shows "(a = [] \<or> g = [] \<or> p = [] \<longrightarrow> fst (read rt self) = Inl SystemExit) \<and>
         (a \<noteq> [] \<and> g \<noteq> [] \<and> p \<noteq> [] \<longrightarrow>
            fst (read rt self) = aggregate rt (hd a) (hd g) (hd p) \<and>
            snd (read rt self) =
              self\<lparr>accelerometer_data := Some (tl a), gps_data := Some (tl g),
                   parking_data := Some (tl p)\<rparr>)"
  using assms
  by (cases a; cases g; cases p)
     (simp_all add: read_def Let_def except_StopIteration_exit_def)

theorem read_started_witness:
  "fst (read demo_runtime demo_started) =
     Inr (AggregatedData (Accelerometer 1 16 3) (Gps (Finite 30) (Finite 50))
            (Parking 7 (Gps (Finite 31) (Finite 51))) (Datetime 2024 1 1 0 0 0 0 None) 1) \<and>
   snd (read demo_runtime demo_started) =
     demo_started\<lparr>accelerometer_data := Some [], gps_data := Some [], parking_data := Some []\<rparr> \<and>
   fst (read demo_runtime
          (demo_started\<lparr>accelerometer_data := Some [], gps_data := Some [],
             parking_data := Some []\<rparr>)) = Inl SystemExit"
  using read_started [of demo_started "[[''1'', ''16'', ''3'']]" "[[''30'', ''50'']]"
      "[[''7'', ''31'', ''51'']]" demo_runtime]
    read_started [of "demo_started\<lparr>accelerometer_data := Some [], gps_data := Some [],
      parking_data := Some []\<rparr>" "[]" "[]" "[]" demo_runtime]
  by (simp add: aggregate_demo) (simp add: demo_started_def)

text \<open>
  C9. After a \<^verbatim>\<open>startReading\<close> that returned normally, \<^verbatim>\<open>stopReading\<close> raises
  AttributeError (the stored readers have no \<^verbatim>\<open>close\<close>). \<^verbatim>\<open>stopReading\<close> returns
  normally exactly when all three data fields are still \<^verbatim>\<open>None\<close>, and otherwise
  raises AttributeError.
\<close>

theorem stopReading_after_startReading:
  "(fst (startReading fs self) = Inr () \<longrightarrow>
      stopReading (snd (startReading fs self)) = Inl AttributeError) \<and>
   ((stopReading self = Inr ()) =
      (accelerometer_data self = None \<and> gps_data self = None \<and> parking_data self = None)) \<and>
   (stopReading self = Inr () \<or> stopReading self = Inl AttributeError)"
proof (intro conjI impI)
  assume ok: "fst (startReading fs self) = Inr ()"
  then have "accelerometer_data (snd (startReading fs self)) \<noteq> None"
    by (auto simp: startReading_def Let_def split: sum.splits prod.splits)
  then show "stopReading (snd (startReading fs self)) = Inl AttributeError"
    by (cases "accelerometer_data (snd (startReading fs self))")
       (simp_all add: stopReading_def try_then_def close_if_set_def reader_close_def)
next
  show "(stopReading self = Inr ()) =
      (accelerometer_data self = None \<and> gps_data self = None \<and> parking_data self = None)"
    by (simp add: stopReading_def try_then_def close_if_set_def reader_close_def
        split: option.splits)
next
  show "stopReading self = Inr () \<or> stopReading self = Inl AttributeError"
    by (simp add: stopReading_def try_then_def close_if_set_def reader_close_def
        split: option.splits)
qed

theorem stopReading_after_startReading_witness:
  "fst (startReading demo_files demo_datasource) = Inr () \<and>
   stopReading (snd (startReading demo_files demo_datasource)) = Inl AttributeError \<and>
   stopReading demo_datasource = Inr ()"
  using stopReading_after_startReading [of demo_files demo_datasource]
  by (simp add: startReading_demo) (simp add: demo_datasource_def FileDatasource_init_def)

section \<open>Properties of the store API\<close>

subsection \<open>The session object\<close>

lemma get_db_raises: "get_db = Inl AttributeError"
  by (simp add: get_db_def finally_close_def close_def)

lemma create_raises: "create_processed_agent_data data st = (Inl AttributeError, st)"
  by (simp add: create_processed_agent_data_def get_db_raises)

lemma read_raises: "read_processed_agent_data pid st = (Inl AttributeError, st)"
  by (simp add: read_processed_agent_data_def get_db_raises)

lemma list_raises: "list_processed_agent_data st = (Inl AttributeError, st)"
  by (simp add: list_processed_agent_data_def get_db_raises)

lemma update_raises: "update_processed_agent_data pid data st = (Inl AttributeError, st)"
  by (simp add: update_processed_agent_data_def get_db_raises)

lemma delete_raises: "delete_processed_agent_data pid st = (Inl AttributeError, st)"
  by (simp add: delete_processed_agent_data_def get_db_raises)

text \<open>
  The \<^verbatim>\<open>except Exception\<close> of \<^verbatim>\<open>delete_processed_agent_data\<close> turns the handler's
  own \<^verbatim>\<open>HTTPException(400, "Not found")\<close> into the 500.
\<close>

lemma not_found_swallowed:
  "except_Exception_500 (Inl (HTTPException 400 ''Not found'') :: exn + ProcessedAgentDataInDB) =
     Inl (HTTPException 500 ''Error'')"
  by (simp add: except_Exception_500_def is_Exception_def)

subsection \<open>Ingestion and broadcast\<close>



subsection \<open>Broadcast\<close>

lemma send_json_string:
  "send_json lib ws (PStr s) =
     (if ws_open ws then Inr (delivered (encode_string escape_plain s) ws) else Inl SendError)"
  by (simp add: send_json_def send_text_def delivered_def try_then_def)

lemma send_loop:
  assumes "json_dumps lib data = Inr text"
  shows "send_data_to_subscribers lib data subs =
     (if list_all ws_open subs then Inr () else Inl SendError,
      map (delivered (encode_string escape_plain text)) (takeWhile ws_open subs)
        @ dropWhile ws_open subs)"
  using assms by (induction subs) (simp_all add: send_json_string)

lemma send_loop_all_open:
  assumes "json_dumps lib data = Inr text" and "list_all ws_open subs"
  shows "send_data_to_subscribers lib data subs =
           (Inr (), map (delivered (encode_string escape_plain text)) subs)"
proof -
  have tw: "takeWhile ws_open subs = subs" and dw: "dropWhile ws_open subs = []"
    using assms(2) by (simp_all add: list_all_iff)
  show ?thesis
    unfolding send_loop [OF assms(1)] tw dw using assms(2) by simp
qed

lemma send_loop_unserialisable:
  assumes "json_dumps lib data = Inl e"
  shows "send_data_to_subscribers lib data (ws # rest) = (Inl e, ws # rest)"
  using assms by simp

lemma json_dumps_None: "json_dumps lib PNone = Inr ''null''"
  by (simp add: json_dumps_def)

text \<open>
  C2 fails as stated: a subscriber whose send fails is not removed and the broadcast does
  not go on. With a broken connection iterated first and an open one second, the call
  raises the send's exception, both stay registered and the open one has been sent
  nothing.
\<close>

theorem send_data_to_subscribers_counterexample:
  "send_data_to_subscribers demo_library PNone [broken_ws 0, demo_ws 1] =
     (Inl SendError, [broken_ws 0, demo_ws 1]) \<and> sent (demo_ws 1) = []"
  by (simp add: json_dumps_None send_json_string broken_ws_def demo_ws_def)

text \<open>
  C2, amended. \<^verbatim>\<open>send_data_to_subscribers\<close> sends to the subscribers in iteration
  order. For a payload \<^verbatim>\<open>json.dumps\<close> serialises, the first send that fails ends the
  call: its exception is raised to the caller, the failing subscriber stays registered,
  the subscribers iterated before it have received the payload and those after it
  receive nothing. When no send fails, every subscriber receives the payload and the call
  returns normally. For a payload \<^verbatim>\<open>json.dumps\<close> does not serialise, its exception
  ends the call at the first subscriber in the same way: it is raised to the caller, no
  one is removed and no one is sent anything.
\<close>

theorem send_data_to_subscribers_stops_at_failure:
  "(json_dumps lib data = Inr text \<and> list_all ws_open before \<and> \<not> ws_open failing \<longrightarrow>
      send_data_to_subscribers lib data (before @ failing # rest) =
        (Inl SendError,
         map (delivered (encode_string escape_plain text)) before @ failing # rest)) \<and>
   (json_dumps lib data = Inr text \<and> list_all ws_open subs \<longrightarrow>
      send_data_to_subscribers lib data subs =
        (Inr (), map (delivered (encode_string escape_plain text)) subs)) \<and>
   (json_dumps lib data = Inl e \<longrightarrow>
      send_data_to_subscribers lib data (first # others) = (Inl e, first # others))"
proof (intro conjI impI)
  assume a: "json_dumps lib data = Inr text \<and> list_all ws_open before \<and> \<not> ws_open failing"
  then have "takeWhile ws_open (before @ failing # rest) = before"
    and "dropWhile ws_open (before @ failing # rest) = failing # rest"
    by (simp_all add: list_all_iff)
  with a show "send_data_to_subscribers lib data (before @ failing # rest) =
        (Inl SendError,
         map (delivered (encode_string escape_plain text)) before @ failing # rest)"
    by (simp add: send_loop)
next
  assume "json_dumps lib data = Inr text \<and> list_all ws_open subs"
  then show "send_data_to_subscribers lib data subs =
        (Inr (), map (delivered (encode_string escape_plain text)) subs)"
    by (simp add: send_loop_all_open)
next
  assume "json_dumps lib data = Inl e"
  then show "send_data_to_subscribers lib data (first # others) = (Inl e, first # others)"
    by (rule send_loop_unserialisable)
qed

theorem send_data_to_subscribers_stops_at_failure_witness:
  "send_data_to_subscribers demo_library PNone [demo_ws 0, broken_ws 1, demo_ws 2] =
     (Inl SendError,
      [\<lparr>ws_id = 0, ws_open = True, sent = [[CHR 0x22, CHR ''n'', CHR ''u'', CHR ''l'', CHR ''l'', CHR 0x22]]\<rparr>,
       broken_ws 1, demo_ws 2]) \<and>
   send_data_to_subscribers demo_library PNone [demo_ws 0, demo_ws 2] =
     (Inr (),
      [\<lparr>ws_id = 0, ws_open = True, sent = [[CHR 0x22, CHR ''n'', CHR ''u'', CHR ''l'', CHR ''l'', CHR 0x22]]\<rparr>,
       \<lparr>ws_id = 2, ws_open = True, sent = [[CHR 0x22, CHR ''n'', CHR ''u'', CHR ''l'', CHR ''l'', CHR 0x22]]\<rparr>]) \<and>
   send_data_to_subscribers demo_library (PDatetime (Datetime 2024 1 1 0 0 0 0 None))
       [demo_ws 0, demo_ws 2] =
     (Inl TypeError, [demo_ws 0, demo_ws 2])"
proof -
  have d: "json_dumps demo_library (PDatetime (Datetime 2024 1 1 0 0 0 0 None)) = Inl TypeError"
    by (simp add: json_dumps_def)
  have "send_data_to_subscribers demo_library (PDatetime (Datetime 2024 1 1 0 0 0 0 None))
       [demo_ws 0, demo_ws 2] = (Inl TypeError, [demo_ws 0, demo_ws 2])"
    using send_data_to_subscribers_stops_at_failure
      [of demo_library "PDatetime (Datetime 2024 1 1 0 0 0 0 None)" "[]" "[]" "broken_ws 1"
          "[]" "[]" TypeError "demo_ws 0" "[demo_ws 2]"] d
    by simp
  then show ?thesis
    using send_data_to_subscribers_stops_at_failure
      [of demo_library PNone "''null''" "[demo_ws 0]" "broken_ws 1" "[demo_ws 2]"
          "[demo_ws 0, demo_ws 2]" TypeError "demo_ws 0" "[]"]
    by (simp add: json_dumps_None demo_ws_def broken_ws_def delivered_def encode_string_def
        escape_plain_def escape_common_def)
qed

subsection \<open>Reading, updating and deleting by id\<close>

text \<open>
  C3 fails on the code. For every id, one that no row has in particular,
  \<^verbatim>\<open>read_processed_agent_data\<close>, \<^verbatim>\<open>update_processed_agent_data\<close> and
  \<^verbatim>\<open>delete_processed_agent_data\<close> raise AttributeError at \<^verbatim>\<open>get_db()\<close>, outside
  their \<^verbatim>\<open>try\<close>: the handler crashes, and the caller gets no not-found outcome.
\<close>

theorem by_id_endpoints_raise:
  "read_processed_agent_data pid st = (Inl AttributeError, st) \<and>
   update_processed_agent_data pid data st = (Inl AttributeError, st) \<and>
   delete_processed_agent_data pid st = (Inl AttributeError, st)"
  by (simp add: read_raises update_raises delete_raises)

theorem by_id_endpoints_raise_witness:
  "read_processed_agent_data 7 demo_state = (Inl AttributeError, demo_state) \<and>
   update_processed_agent_data 7 demo_item demo_state = (Inl AttributeError, demo_state) \<and>
   delete_processed_agent_data 7 demo_state = (Inl AttributeError, demo_state)"
  using by_id_endpoints_raise [of 7 demo_state demo_item] by simp

subsection \<open>Batch insertion\<close>



subsection \<open>Round trip\<close>

text \<open>
  C7 fails on the code. Storing the record of the spec's example raises AttributeError
  and leaves the table empty, so no id is assigned; reading id 1 afterwards raises
  AttributeError as well, where the claim has a stored record come back.
\<close>

theorem round_trip_raises:
  "create_processed_agent_data [demo_item] \<lparr>table = [], subscriptions = []\<rparr> =
     (Inl AttributeError, \<lparr>table = [], subscriptions = []\<rparr>) \<and>
   read_processed_agent_data 1 \<lparr>table = [], subscriptions = []\<rparr> =
     (Inl AttributeError, \<lparr>table = [], subscriptions = []\<rparr>)"
  by (simp add: create_raises read_raises)

subsection \<open>The request boundary\<close>

lemma validator_not_collected:
  "collected_validator (AgentData_check_timestamp fromiso) = None"
  by (simp add: collected_validator_def AgentData_check_timestamp_def)

lemma validate_timestamp_builtin: "validate_timestamp lib v = builtin_datetime lib v"
  by (simp add: validate_timestamp_def validator_not_collected)

text \<open>
  C6 fails on the code. \<^verbatim>\<open>check_timestamp\<close> rejects a timestamp given as a number,
  which is not an ISO-8601 text, but it is never collected as a validator. The field is
  validated by pydantic's own parsing, which reads a number as Unix time: where that
  gives a datetime, the record is constructed and the handler is called, so the request
  is not answered with the 422 of a rejected body (the handler then raises
  AttributeError at \<^verbatim>\<open>get_db()\<close>).
\<close>

theorem numeric_timestamp_accepted:
  assumes "datetime_of_unix lib n = Some d" and "raw_timestamp raw = RawNumber n"
  shows "check_timestamp (fromisoformat lib) (raw_timestamp raw) = Inl ValueError \<and>
         validate_body lib [raw] =
           Inr [\<lparr>road_state = raw_road_state raw,
                 agent_data = \<lparr>accelerometer = raw_accelerometer raw, gps = raw_gps raw,
                                timestamp = d\<rparr>\<rparr>] \<and>
         post_processed_agent_data lib [raw] st = (Inl AttributeError, st) \<and>
         post_processed_agent_data lib [raw] st \<noteq>
           (Inl (HTTPException 422 ''Unprocessable Entity''), st)"
  using assms
  by (simp add: check_timestamp_def validate_item_def validate_timestamp_builtin
      builtin_datetime_def try_then_def post_processed_agent_data_def create_raises)

theorem numeric_timestamp_accepted_witness:
  "check_timestamp demo_iso (RawNumber 1704067200) = Inl ValueError \<and>
   validate_body demo_library [demo_raw (RawNumber 1704067200)] = Inr [demo_item] \<and>
   post_processed_agent_data demo_library [demo_raw (RawNumber 1704067200)] demo_state =
     (Inl AttributeError, demo_state) \<and>
   post_processed_agent_data demo_library [demo_raw (RawStr ''yesterday'')] demo_state =
     (Inl (HTTPException 422 ''Unprocessable Entity''), demo_state)"
proof -
  have u: "datetime_of_unix demo_library 1704067200 = Some (Datetime 2024 1 1 0 0 0 0 (Some 0))"
    by (simp add: demo_library_def demo_unix_def)
  have r: "raw_timestamp (demo_raw (RawNumber 1704067200)) = RawNumber 1704067200"
    by (simp add: demo_raw_def)
  have s: "post_processed_agent_data demo_library [demo_raw (RawStr ''yesterday'')] demo_state =
     (Inl (HTTPException 422 ''Unprocessable Entity''), demo_state)"
    by (simp add: post_processed_agent_data_def validate_item_def validate_timestamp_builtin
        builtin_datetime_def try_then_def demo_raw_def demo_library_def demo_iso_def)
  show ?thesis
    using numeric_timestamp_accepted [OF u r, of demo_state] s
    by (simp add: demo_raw_def demo_item_def demo_library_def)
qed

subsection \<open>What a subscriber is sent\<close>

lemma hex_table: "map hex_val ''0123456789abcdef'' = map Some [0..<16]"
  by (simp add: hex_val_def upt_rec)

lemma hex_val_hex_digit: "hex_val (hex_digit n) = Some (n mod 16)"
proof -
  have k: "n mod 16 < length ''0123456789abcdef''" by simp
  have "hex_val (''0123456789abcdef'' ! (n mod 16)) = map hex_val ''0123456789abcdef'' ! (n mod 16)"
    using k by (simp only: nth_map)
  also have "\<dots> = Some (n mod 16)"
    unfolding hex_table by simp
  finally show ?thesis by (simp add: hex_digit_def)
qed

lemma hex_val_zero: "hex_val CHR ''0'' = Some 0"
  by (simp add: hex_val_def)

lemma unescape_raw:
  "c \<noteq> CHR 0x5C \<Longrightarrow> c \<noteq> CHR 0x22 \<Longrightarrow> unescape (c # t) = map_option ((#) c) (unescape t)"
  by (cases t) simp_all

lemma unescape_u00:
  "unescape ([CHR 0x5C, CHR ''u'', CHR ''0'', CHR ''0'',
      hex_digit (of_char c div 16), hex_digit (of_char c)] @ t) =
   map_option ((#) c) (unescape t)"
proof -
  have lt: "(of_char c :: nat) < 256" by simp
  then have "(of_char c :: nat) div 16 < 16" by arith
  then have eq: "16 * ((of_char c :: nat) div 16 mod 16) + of_char c mod 16 = of_char c"
    by simp
  show ?thesis
    by (simp add: hex4_def hex_val_hex_digit hex_val_zero eq)
qed

lemma escape_common_cases:
  assumes "escape_common c = Some e"
  shows "unescape (e @ t) = map_option ((#) c) (unescape t)"
proof (cases "c = CHR 0x22 \<or> c = CHR 0x5C \<or> c = CHR 0x08 \<or> c = CHR 0x0C \<or> c = CHR 0x0A \<or>
              c = CHR 0x0D \<or> c = CHR 0x09")
  case True
  then show ?thesis
    using assms by (elim disjE) (auto simp: escape_common_def)
next
  case False
  with assms have e: "e = [CHR 0x5C, CHR ''u'', CHR ''0'', CHR ''0'',
                 hex_digit (of_char c div 16), hex_digit (of_char c)]"
    by (auto simp: escape_common_def split: if_splits)
  show ?thesis
    unfolding e by (rule unescape_u00)
qed

lemma escape_common_None:
  assumes "escape_common c = None"
  shows "c \<noteq> CHR 0x5C" and "c \<noteq> CHR 0x22"
  using assms by (auto simp: escape_common_def split: if_splits)

lemma unescape_escape_plain:
  "unescape (escape_plain c @ t) = map_option ((#) c) (unescape t)"
proof (cases "escape_common c")
  case None
  with escape_common_None [OF None] show ?thesis
    by (simp add: escape_plain_def unescape_raw)
next
  case (Some e)
  with escape_common_cases [OF Some, of t] show ?thesis
    by (simp add: escape_plain_def)
qed

lemma unescape_escape_ascii:
  "unescape (escape_ascii c @ t) = map_option ((#) c) (unescape t)"
proof (cases "escape_common c")
  case None
  show ?thesis
  proof (cases "0x7E < (of_char c :: nat)")
    case True
    with None unescape_u00 [of c t] show ?thesis
      by (simp add: escape_ascii_def)
  next
    case False
    with None escape_common_None [OF None] show ?thesis
      by (simp add: escape_ascii_def unescape_raw)
  qed
next
  case (Some e)
  with escape_common_cases [OF Some, of t] show ?thesis
    by (simp add: escape_ascii_def)
qed

lemma unescape_concat_escape_plain: "unescape (concat (map escape_plain s)) = Some s"
  by (induction s) (simp_all add: unescape_escape_plain)

lemma unescape_concat_escape_ascii: "unescape (concat (map escape_ascii s)) = Some s"
  by (induction s) (simp_all add: unescape_escape_ascii)

lemma loads_string_plain: "loads_string (encode_string escape_plain s) = Some s"
  by (simp add: loads_string_def encode_string_def unescape_concat_escape_plain)

lemma loads_string_ascii: "loads_string (encode_string escape_ascii s) = Some s"
  by (simp add: loads_string_def encode_string_def unescape_concat_escape_ascii)

lemma escape_ascii_nonempty: "escape_ascii c \<noteq> []"
  by (simp add: escape_ascii_def escape_common_def split: option.splits)

lemma length_concat_escape_ascii: "length s \<le> length (concat (map escape_ascii s))"
proof (induction s)
  case Nil
  show ?case by simp
next
  case (Cons c s)
  have "1 \<le> length (escape_ascii c)"
    using escape_ascii_nonempty [of c] by (cases "escape_ascii c") simp_all
  with Cons show ?case by simp
qed

lemma decimal_digit_not_quote: "decimal_digit n \<noteq> CHR 0x22"
proof -
  have "decimal_digit n \<in> set ''0123456789''"
    unfolding decimal_digit_def by (rule nth_mem) simp
  then show ?thesis by auto
qed

lemma decimal_digits_hd: "decimal_digits n \<noteq> [] \<and> hd (decimal_digits n) \<noteq> CHR 0x22"
proof (induction n rule: decimal_digits.induct)
  case (1 n)
  show ?case
  proof (cases "n < 10")
    case True
    then show ?thesis by (simp add: decimal_digits.simps [of n] decimal_digit_not_quote)
  next
    case False
    with 1 show ?thesis by (simp add: decimal_digits.simps [of n])
  qed
qed

lemma int_repr_hd: "int_repr i \<noteq> [] \<and> hd (int_repr i) \<noteq> CHR 0x22"
  using decimal_digits_hd by (simp add: int_repr_def)

lemma loads_string_not_quoted: "t \<noteq> [] \<Longrightarrow> hd t \<noteq> CHR 0x22 \<Longrightarrow> loads_string t = None"
  by (cases t) (simp_all add: loads_string_def)

text \<open>
  The frame that sending the payload itself would give is never the frame of its JSON
  text (a float aside, whose text is the library's).
\<close>

lemma single_encoding_differs:
  assumes "json_dumps lib data = Inr text" and "dumps fr '','' '':'' escape_plain data = Inr t"
    and "\<forall>f. data \<noteq> PFloat f"
  shows "t \<noteq> encode_string escape_plain text"
proof
  assume eq: "t = encode_string escape_plain text"
  then have l: "loads_string t = Some text" by (simp add: loads_string_plain)
  show False
  proof (cases data)
    case PNone
    with assms(2) l show False by (auto simp: loads_string_not_quoted)
  next
    case (PBool b)
    with assms(2) l show False by (cases b) (auto simp: loads_string_not_quoted)
  next
    case (PInt i)
    with assms(2) l int_repr_hd [of i] show False by (auto simp: loads_string_not_quoted)
  next
    case (PFloat f)
    with assms(3) show False by simp
  next
    case (PStr s)
    with assms(1) have tx: "text = encode_string escape_ascii s"
      by (simp add: json_dumps_def)
    from PStr assms(2) l have "s = text" by (auto simp: loads_string_plain)
    moreover have "length s < length text"
      unfolding tx using length_concat_escape_ascii [of s] by (simp add: encode_string_def)
    ultimately show False by simp
  next
    case (PList xs)
    with assms(2) l show False
      by (auto simp: try_then_def loads_string_not_quoted split: sum.splits)
  next
    case (PDict kvs)
    with assms(2) l show False
      by (auto simp: try_then_def loads_string_not_quoted split: sum.splits)
  next
    case (PDatetime d)
    with assms(2) show False by simp
  next
    case (PModel m)
    with assms(2) show False by simp
  qed
qed

lemma json_dumps_demo: "json_dumps demo_library demo_payload = Inr demo_text"
  by (simp add: json_dumps_def demo_payload_def demo_text_def demo_library_def
      demo_float_repr_def float_text_def try_then_def encode_string_def escape_ascii_def
      escape_common_def hex_digit_def int_repr_def decimal_digits.simps decimal_digit_def)

lemma demo_frame_eq: "encode_string escape_plain demo_text = demo_frame"
  by (simp add: demo_text_def demo_frame_def encode_string_def escape_plain_def escape_common_def)

text \<open>
  C10 fails as stated, for not every payload passed reaches a subscriber as a doubly
  encoded string: \<^verbatim>\<open>json.dumps\<close> raises TypeError on a record object (a model, or
  anything holding a \<^verbatim>\<open>datetime\<close>), and both registered open subscribers are sent
  nothing.
\<close>

theorem payload_not_serialisable_counterexample:
  "send_data_to_subscribers demo_library (PModel demo_item) [demo_ws 0, demo_ws 1] =
     (Inl TypeError, [demo_ws 0, demo_ws 1]) \<and>
   send_data_to_subscribers demo_library
       (PDict [(''timestamp'', PDatetime (Datetime 2024 1 1 0 0 0 0 None))])
       [demo_ws 0, demo_ws 1] =
     (Inl TypeError, [demo_ws 0, demo_ws 1]) \<and>
   sent (demo_ws 0) = [] \<and> sent (demo_ws 1) = []"
  by (simp add: json_dumps_def try_then_def demo_ws_def)

text \<open>
  C10, amended. For every payload \<^verbatim>\<open>json.dumps\<close> serialises, with JSON text
  \<open>text\<close>: the frame \<^verbatim>\<open>send_data_to_subscribers\<close> sends is \<^verbatim>\<open>send_json\<close>'s
  serialisation of the string \<open>text\<close>, that is \<open>text\<close> escaped between double quotes;
  read back, the frame is a string whose content is \<open>text\<close> (and for a string payload
  \<open>text\<close> read back is that string); unless the payload is a float, it is not the frame
  that sending the payload itself would give. The subscribers iterated before the first
  failing send are each sent exactly this frame, all of them when no send fails, and the
  others nothing. For a payload \<^verbatim>\<open>json.dumps\<close> does not serialise, the call raises its
  exception at the first subscriber and no one is sent anything.
\<close>

theorem payload_encoded_twice:
  "(json_dumps lib data = Inr text \<longrightarrow>
      snd (send_data_to_subscribers lib data subs) =
        map (delivered (encode_string escape_plain text)) (takeWhile ws_open subs) @
        dropWhile ws_open subs \<and>
      (list_all ws_open subs \<longrightarrow>
         send_data_to_subscribers lib data subs =
           (Inr (), map (delivered (encode_string escape_plain text)) subs)) \<and>
      dumps (float_repr lib) '','' '':'' escape_plain (PStr text) =
        Inr (encode_string escape_plain text) \<and>
      encode_string escape_plain text =
        CHR 0x22 # concat (map escape_plain text) @ [CHR 0x22] \<and>
      loads_string (encode_string escape_plain text) = Some text \<and>
      (data = PStr s \<longrightarrow> loads_string text = Some s) \<and>
      ((\<forall>f. data \<noteq> PFloat f) \<longrightarrow>
         dumps (float_repr lib) '','' '':'' escape_plain data \<noteq>
           Inr (encode_string escape_plain text))) \<and>
   (json_dumps lib data = Inl e \<longrightarrow>
      send_data_to_subscribers lib data (ws # rest) = (Inl e, ws # rest))"
proof (intro conjI impI)
  assume j: "json_dumps lib data = Inr text"
  show "snd (send_data_to_subscribers lib data subs) =
        map (delivered (encode_string escape_plain text)) (takeWhile ws_open subs) @
        dropWhile ws_open subs"
    by (simp add: send_loop [OF j])
  show "dumps (float_repr lib) '','' '':'' escape_plain (PStr text) =
        Inr (encode_string escape_plain text)"
    by simp
  show "encode_string escape_plain text =
        CHR 0x22 # concat (map escape_plain text) @ [CHR 0x22]"
    by (simp add: encode_string_def)
  show "loads_string (encode_string escape_plain text) = Some text"
    by (rule loads_string_plain)
  {
    assume "list_all ws_open subs"
    with j show "send_data_to_subscribers lib data subs =
           (Inr (), map (delivered (encode_string escape_plain text)) subs)"
      by (rule send_loop_all_open)
  }
  {
    assume "data = PStr s"
    with j show "loads_string text = Some s"
      by (auto simp: json_dumps_def loads_string_ascii)
  }
  {
    assume nf: "\<forall>f. data \<noteq> PFloat f"
    show "dumps (float_repr lib) '','' '':'' escape_plain data \<noteq>
           Inr (encode_string escape_plain text)"
    proof
      assume "dumps (float_repr lib) '','' '':'' escape_plain data =
                Inr (encode_string escape_plain text)"
      from single_encoding_differs [OF j this nf] show False by simp
    qed
  }
next
  assume "json_dumps lib data = Inl e"
  then show "send_data_to_subscribers lib data (ws # rest) = (Inl e, ws # rest)"
    by (rule send_loop_unserialisable)
qed

theorem payload_encoded_twice_witness:
  "json_dumps demo_library demo_payload = Inr demo_text \<and>
   send_data_to_subscribers demo_library demo_payload [demo_ws 0, broken_ws 1, demo_ws 2] =
     (Inl SendError,
      [\<lparr>ws_id = 0, ws_open = True, sent = [demo_frame]\<rparr>, broken_ws 1, demo_ws 2]) \<and>
   send_data_to_subscribers demo_library demo_payload [demo_ws 0, demo_ws 2] =
     (Inr (),
      [\<lparr>ws_id = 0, ws_open = True, sent = [demo_frame]\<rparr>,
       \<lparr>ws_id = 2, ws_open = True, sent = [demo_frame]\<rparr>]) \<and>
   loads_string demo_frame = Some demo_text \<and>
   dumps demo_float_repr '','' '':'' escape_plain demo_payload \<noteq> Inr demo_frame"
proof -
  note t = payload_encoded_twice [of demo_library demo_payload demo_text _ "''''" _
      "demo_ws 0" "[]", unfolded demo_frame_eq]
  have nf: "\<forall>f. demo_payload \<noteq> PFloat f"
    by (simp add: demo_payload_def)
  have fr: "float_repr demo_library = demo_float_repr"
    by (simp add: demo_library_def)
  have a: "snd (send_data_to_subscribers demo_library demo_payload
                  [demo_ws 0, broken_ws 1, demo_ws 2]) =
             [\<lparr>ws_id = 0, ws_open = True, sent = [demo_frame]\<rparr>, broken_ws 1, demo_ws 2]"
    using t [of "[demo_ws 0, broken_ws 1, demo_ws 2]"] json_dumps_demo
    by (simp add: demo_ws_def broken_ws_def delivered_def)
  have a': "fst (send_data_to_subscribers demo_library demo_payload
                  [demo_ws 0, broken_ws 1, demo_ws 2]) = Inl SendError"
    unfolding send_loop [OF json_dumps_demo] by (simp add: demo_ws_def broken_ws_def)
  have b: "send_data_to_subscribers demo_library demo_payload [demo_ws 0, demo_ws 2] =
     (Inr (),
      [\<lparr>ws_id = 0, ws_open = True, sent = [demo_frame]\<rparr>,
       \<lparr>ws_id = 2, ws_open = True, sent = [demo_frame]\<rparr>])"
    using t [of "[demo_ws 0, demo_ws 2]"] json_dumps_demo
    by (simp add: demo_ws_def delivered_def)
  have c: "loads_string demo_frame = Some demo_text"
    using t [of "[]"] json_dumps_demo by simp
  have d: "dumps demo_float_repr '','' '':'' escape_plain demo_payload \<noteq> Inr demo_frame"
    using t [of "[]"] json_dumps_demo nf fr by simp
  from a a' b c d json_dumps_demo show ?thesis
    by (simp add: prod_eq_iff)
qed

end
